theory Spec2Isabelle
  imports Complex_Main "HOL-Library.Word" "HOL-Library.Sublist"
begin

section \<open>Text primitives of the Python runtime\<close>

text \<open>
  Python text is modelled as \<^typ>\<open>string\<close>, one \<^typ>\<open>char\<close> per code point, so the
  model covers text whose code points are below 256.  \<open>isspace\<close> is Python's
  \<open>str.isspace\<close> on that range (the characters \<open>strip\<close>, \<open>split\<close> and the regular
  expression class \<open>\s\<close> treat as whitespace).
\<close>

definition isspace :: "char \<Rightarrow> bool" where
  "isspace c = (of_char c \<in> set ([9, 10, 11, 12, 13, 28, 29, 30, 31, 32, 133, 160] :: nat list))"

definition lstrip :: "string \<Rightarrow> string" where
  "lstrip s = dropWhile isspace s"

definition rstrip :: "string \<Rightarrow> string" where
  "rstrip s = rev (dropWhile isspace (rev s))"

definition strip :: "string \<Rightarrow> string" where
  "strip s = rstrip (lstrip s)"

text \<open>
  \<open>str.upper\<close>: the ASCII and Latin-1 small letters move to their capitals and the sharp s
  becomes \<open>SS\<close>; every other character below 256 is unchanged, except the micro sign and
  the y with diaeresis, whose capitals lie above 255 and are left as they are here.
\<close>

definition upper_char :: "char \<Rightarrow> string" where
  "upper_char c =
     (let n = (of_char c :: nat) in
      if 97 \<le> n \<and> n \<le> 122 then [char_of (n - 32)]
      else if 224 \<le> n \<and> n \<le> 254 \<and> n \<noteq> 247 then [char_of (n - 32)]
      else if n = 223 then ''SS''
      else [c])"

definition upper :: "string \<Rightarrow> string" where
  "upper s = concat (map upper_char s)"

text \<open>\<open>a in b\<close> on strings.\<close>

definition contains :: "string \<Rightarrow> string \<Rightarrow> bool" where
  "contains b a = sublist a b"

definition endswith :: "string \<Rightarrow> string \<Rightarrow> bool" where
  "endswith s suf = suffix suf s"

text \<open>\<open>s.replace("\n", " ")\<close>, a replacement of one character by another.\<close>

definition replace_char :: "char \<Rightarrow> char \<Rightarrow> string \<Rightarrow> string" where
  "replace_char a b s = map (\<lambda>c. if c = a then b else c) s"

text \<open>\<open>str.split()\<close> with no argument: the maximal runs of non-whitespace characters.\<close>

fun split_from :: "string \<Rightarrow> string \<Rightarrow> string list" where
  "split_from cur [] = (if cur = [] then [] else [rev cur])"
| "split_from cur (c # cs) =
     (if isspace c then (if cur = [] then split_from [] cs else rev cur # split_from [] cs)
      else split_from (c # cur) cs)"

definition split :: "string \<Rightarrow> string list" where
  "split s = split_from [] s"

text \<open>\<open>sep.join(xs)\<close>.\<close>

fun join :: "string \<Rightarrow> string list \<Rightarrow> string" where
  "join sep [] = []"
| "join sep [x] = x"
| "join sep (x # y # ys) = x @ sep @ join sep (y # ys)"

section \<open>The two regular expressions of the normaliser\<close>

text \<open>
  \<open>re.search\<close> tries the start positions from left to right and, at each start, the
  alternatives of the pattern in the order of a backtracking matcher.  The two patterns
  are \<open>Reply to\s+([^\n\r]{2,60}?)\.\.\.\<close> and \<open>Reply to\s+([^\n\r]{2,60})\<close>, both with
  \<open>re.I\<close>; the functions below return the text of group 1.
\<close>

fun first_some :: "('a \<Rightarrow> 'b option) \<Rightarrow> 'a list \<Rightarrow> 'b option" where
  "first_some f [] = None"
| "first_some f (x # xs) = (case f x of Some y \<Rightarrow> Some y | None \<Rightarrow> first_some f xs)"

definition lower_ascii :: "char \<Rightarrow> char" where
  "lower_ascii c =
     (let n = (of_char c :: nat) in if 65 \<le> n \<and> n \<le> 90 then char_of (n + 32) else c)"

text \<open>A literal under \<open>re.I\<close>, matched at the head of the input; the result is the rest.\<close>

fun match_literal :: "string \<Rightarrow> string \<Rightarrow> string option" where
  "match_literal [] s = Some s"
| "match_literal (p # ps) [] = None"
| "match_literal (p # ps) (c # cs) =
     (if lower_ascii c = lower_ascii p then match_literal ps cs else None)"

definition not_newline :: "char \<Rightarrow> bool" where
  "not_newline c = (c \<noteq> CHR 0x0A \<and> c \<noteq> CHR 0x0D)"

text \<open>\<open>([^\n\r]{2,60}?)\.\.\.\<close>: the shortest run of 2 to 60 characters followed by three dots.\<close>

definition lazy_run_at :: "string \<Rightarrow> nat \<Rightarrow> string option" where
  "lazy_run_at t n =
     (if n \<le> length t \<and> list_all not_newline (take n t) \<and> take 3 (drop n t) = ''...''
      then Some (take n t) else None)"

definition lazy_run :: "string \<Rightarrow> string option" where
  "lazy_run t = first_some (lazy_run_at t) [2..<61]"

text \<open>\<open>([^\n\r]{2,60})\<close>: the longest run of at most 60 characters, if it has at least 2.\<close>

definition greedy_run :: "string \<Rightarrow> string option" where
  "greedy_run t =
     (let r = take 60 (takeWhile not_newline t) in if 2 \<le> length r then Some r else None)"

text \<open>
  \<open>Reply to\s+\<close> followed by a group: \<open>\s+\<close> is greedy, so it first takes the whole
  whitespace run and gives characters back one at a time, keeping at least one.
\<close>

definition match_reply_at :: "(string \<Rightarrow> string option) \<Rightarrow> string \<Rightarrow> string option" where
  "match_reply_at grp s =
     (case match_literal ''Reply to'' s of
        None \<Rightarrow> None
      | Some rest \<Rightarrow>
          first_some (\<lambda>j. grp (drop j rest)) (rev [1..<Suc (length (takeWhile isspace rest))]))"

fun search :: "(string \<Rightarrow> 'a option) \<Rightarrow> string \<Rightarrow> 'a option" where
  "search m [] = m []"
| "search m (c # cs) = (case m (c # cs) of Some g \<Rightarrow> Some g | None \<Rightarrow> search m cs)"

definition search_reply_ellipsis :: "string \<Rightarrow> string option" where
  "search_reply_ellipsis raw = search (match_reply_at lazy_run) raw"

definition search_reply_plain :: "string \<Rightarrow> string option" where
  "search_reply_plain raw = search (match_reply_at greedy_run) raw"

section \<open>Configuration\<close>

record OCRConfig =
  tesseract_config :: string
  min_text_length :: int
  excluded_patterns :: "string list"
  psm_sparse :: int
  psm_filled :: int

definition default_ocr_config :: OCRConfig where
  "default_ocr_config =
     \<lparr>tesseract_config = ''--psm 6'', min_text_length = 3,
      excluded_patterns = [''NO USER'', ''CAPTCHA'', ''LOADING''],
      psm_sparse = 11, psm_filled = 6\<rparr>"

section \<open>The text normaliser\<close>

text \<open>The loop over \<open>excluded_patterns\<close>, returning at the first pattern found.\<close>

fun has_excluded :: "string list \<Rightarrow> string \<Rightarrow> bool" where
  "has_excluded [] raw_text = False"
| "has_excluded (pattern # ps) raw_text =
     (if contains (upper raw_text) (upper pattern) then True else has_excluded ps raw_text)"

definition reply_user :: "string \<Rightarrow> string option" where
  "reply_user raw =
     (case search_reply_ellipsis raw of
        Some g \<Rightarrow> Some (strip g)
      | None \<Rightarrow> (case search_reply_plain raw of Some g \<Rightarrow> Some (strip g) | None \<Rightarrow> None))"

text \<open>\<open>user[:-3].rstrip()\<close> when \<open>user\<close> is non-empty and ends with three dots.\<close>

definition strip_ellipsis :: "string \<Rightarrow> string" where
  "strip_ellipsis user =
     (if user \<noteq> [] \<and> endswith user ''...'' then rstrip (take (length user - 3) user)
      else user)"

definition first_three_words :: "string \<Rightarrow> string option" where
  "first_three_words raw =
     (let tokens = split (replace_char CHR 0x0A CHR '' '' raw)
      in if tokens \<noteq> [] then Some (join '' '' (take 3 tokens)) else None)"

definition filter_text_with_reply_pattern :: "OCRConfig \<Rightarrow> string \<Rightarrow> string" where
  "filter_text_with_reply_pattern cfg raw_text =
     (if raw_text = [] \<or> int (length (strip raw_text)) < min_text_length cfg then []
      else if has_excluded (excluded_patterns cfg) raw_text then []
      else
        let raw = strip raw_text;
            user = map_option strip_ellipsis (reply_user raw);
            user = (if user = None \<or> user = Some [] then first_three_words raw else user)
        in (case user of None \<Rightarrow> ''NO USER'' | Some u \<Rightarrow> if u = [] then ''NO USER'' else u))"

section \<open>Images and the preprocessing pipeline\<close>

text \<open>
  A raster image: its size, its mode and its pixel values.  The operations of the imaging
  library (\<open>convert\<close>, \<open>GaussianBlur\<close>, \<open>ImageEnhance.Contrast\<close>, \<open>UnsharpMask\<close>) are not
  part of the program; they are a parameter of the model.
\<close>

record image =
  img_width :: nat
  img_height :: nat
  img_mode :: string
  img_data :: "nat list"

record pil =
  convert :: "string \<Rightarrow> image \<Rightarrow> image"
  gaussian_blur :: "real \<Rightarrow> image \<Rightarrow> image"
  contrast_enhance :: "real \<Rightarrow> image \<Rightarrow> image"
  unsharp_mask :: "real \<Rightarrow> nat \<Rightarrow> nat \<Rightarrow> image \<Rightarrow> image"

definition preprocess_image :: "pil \<Rightarrow> image \<Rightarrow> image" where
  "preprocess_image lib pil_img =
     (let gray_img = convert lib ''L'' pil_img;
          denoised = gaussian_blur lib (3 / 10) gray_img;
          contrast_img = contrast_enhance lib (12 / 10) denoised;
          final_img = unsharp_mask lib (5 / 10) 100 2 contrast_img
      in final_img)"

text \<open>The contract of a library operation that neither scales nor crops.\<close>

definition keeps_size :: "(image \<Rightarrow> image) \<Rightarrow> bool" where
  "keeps_size f = (\<forall>i. img_width (f i) = img_width i \<and> img_height (f i) = img_height i)"

definition pil_keeps_size :: "pil \<Rightarrow> bool" where
  "pil_keeps_size lib =
     ((\<forall>m. keeps_size (convert lib m)) \<and> (\<forall>r. keeps_size (gaussian_blur lib r)) \<and>
      (\<forall>f. keeps_size (contrast_enhance lib f)) \<and> (\<forall>r p t. keeps_size (unsharp_mask lib r p t)))"

text \<open>
  A small instance of the library for running the model: \<open>convert\<close> sets the mode, the
  blur is the identity, the contrast stretches each value away from 128 and clips it to a
  byte, the unsharp mask is the identity.
\<close>

definition pointwise_pil :: pil where
  "pointwise_pil =
     \<lparr>convert = (\<lambda>m i. i\<lparr>img_mode := m\<rparr>),
      gaussian_blur = (\<lambda>r i. i),
      contrast_enhance =
        (\<lambda>f i. i\<lparr>img_data := map (\<lambda>v. if v < 128 then v - (128 - v) div 5
                                       else min 255 (v + (v - 128) div 5)) (img_data i)\<rparr>),
      unsharp_mask = (\<lambda>r p t i. i)\<rparr>"

definition sample_image :: image where
  "sample_image = \<lparr>img_width = 2, img_height = 1, img_mode = ''RGB'', img_data = [10, 200]\<rparr>"

section \<open>Text extraction\<close>

text \<open>An exception, with the text \<open>str(e)\<close> gives.\<close>

datatype py_exception = PyException string

type_synonym ocr_engine = "image \<Rightarrow> string \<Rightarrow> py_exception + string"

definition extract_text :: "pil \<Rightarrow> ocr_engine \<Rightarrow> OCRConfig \<Rightarrow> image \<Rightarrow> string" where
  "extract_text lib image_to_string cfg pil_img =
     (case image_to_string (preprocess_image lib pil_img) (tesseract_config cfg) of
        Inr out \<Rightarrow> filter_text_with_reply_pattern cfg (strip out)
      | Inl (PyException error_msg) \<Rightarrow>
          if contains error_msg ''tesseract is not installed'' \<or>
             contains error_msg ''tesseract: command not found''
          then ''Tesseract OCR not installed''
          else ''OCR Error: '' @ error_msg)"

text \<open>
  \<open>validate_text_quality\<close>; the reason is kept as a value instead of the formatted
  message.
\<close>

datatype reason =
    NoTextDetected
  | TextTooShort int
  | ExcludedPattern string
  | Acceptable
  | ProcessingFailed string

fun find_excluded :: "string list \<Rightarrow> string \<Rightarrow> string option" where
  "find_excluded [] text = None"
| "find_excluded (pattern # ps) text =
     (if contains (upper text) (upper pattern) then Some pattern else find_excluded ps text)"

definition validate_text_quality :: "OCRConfig \<Rightarrow> string \<Rightarrow> bool \<times> reason" where
  "validate_text_quality cfg text =
     (if text = [] then (False, NoTextDetected)
      else if int (length text) < min_text_length cfg
      then (False, TextTooShort (min_text_length cfg))
      else (case find_excluded (excluded_patterns cfg) text of
              Some pattern \<Rightarrow> (False, ExcludedPattern pattern)
            | None \<Rightarrow> (True, Acceptable)))"

section \<open>The OCR worker\<close>

text \<open>
  The worker's processor shares the one configuration object of the process, and a
  full-page worker halves \<open>min_text_length\<close> in it when it is created.
\<close>

definition worker_init :: "OCRConfig \<Rightarrow> bool \<Rightarrow> OCRConfig" where
  "worker_init cfg full_page =
     (if full_page then cfg\<lparr>min_text_length := max 1 (min_text_length cfg div 2)\<rparr> else cfg)"

datatype signal = ocr_completed string | ocr_failed reason

record ocr_env =
  lib :: pil
  image_to_string :: ocr_engine
  qpixmap_to_pil :: "image \<Rightarrow> py_exception + image"

definition worker_run :: "ocr_env \<Rightarrow> OCRConfig \<Rightarrow> bool \<Rightarrow> image \<Rightarrow> signal" where
  "worker_run env cfg loop_is_active pixmap =
     (case qpixmap_to_pil env pixmap of
        Inl (PyException e) \<Rightarrow>
          if loop_is_active then ocr_completed ''USERNAME_OCR_FAIL''
          else ocr_failed (ProcessingFailed e)
      | Inr pil_img \<Rightarrow>
          let text = extract_text (lib env) (image_to_string env) cfg pil_img;
              (is_valid, why) = validate_text_quality cfg text
          in if loop_is_active then
               (if strip text \<noteq> [] then ocr_completed text
                else ocr_completed ''USERNAME_OCR_FAIL'')
             else if is_valid then ocr_completed text
             else ocr_failed why)"

section \<open>Rectangles and the remembered crop location\<close>

text \<open>
  \<open>QRect\<close> holds its corners as C \<open>int\<close>s; \<open>QRect(x, y, w, h)\<close> computes the right and
  bottom edges and \<open>width()\<close>, \<open>height()\<close> compute back from them, in 32-bit arithmetic.
\<close>

type_synonym c_int = "32 word"

record QRect =
  x1 :: c_int
  y1 :: c_int
  x2 :: c_int
  y2 :: c_int

definition QRect_xywh :: "c_int \<Rightarrow> c_int \<Rightarrow> c_int \<Rightarrow> c_int \<Rightarrow> QRect" where
  "QRect_xywh aleft atop awidth aheight =
     \<lparr>x1 = aleft, y1 = atop, x2 = aleft + awidth - 1, y2 = atop + aheight - 1\<rparr>"

definition rect_x :: "QRect \<Rightarrow> c_int" where "rect_x r = x1 r"
definition rect_y :: "QRect \<Rightarrow> c_int" where "rect_y r = y1 r"
definition rect_width :: "QRect \<Rightarrow> c_int" where "rect_width r = x2 r - x1 r + 1"
definition rect_height :: "QRect \<Rightarrow> c_int" where "rect_height r = y2 r - y1 r + 1"

definition isNull :: "QRect \<Rightarrow> bool" where
  "isNull r = (x2 r = x1 r - 1 \<and> y2 r = y1 r - 1)"

definition isValid :: "QRect \<Rightarrow> bool" where
  "isValid r = (sint (x1 r) \<le> sint (x2 r) \<and> sint (y1 r) \<le> sint (y2 r))"

text \<open>The truth value of an optional rectangle: \<open>None\<close> is false, a rectangle is true when valid.\<close>

definition rect_truthy :: "QRect option \<Rightarrow> bool" where
  "rect_truthy r = (case r of None \<Rightarrow> False | Some q \<Rightarrow> isValid q)"

text \<open>
  A Python integer passed where the binding expects a C \<open>int\<close>: out of range it raises
  \<open>OverflowError\<close>.
\<close>

definition to_c_int :: "int \<Rightarrow> py_exception + c_int" where
  "to_c_int i =
     (if - (2 ^ 31) \<le> i \<and> i < 2 ^ 31 then Inr (word_of_int i)
      else Inl (PyException ''value must be in the range -2147483648 to 2147483647''))"

record OCRLocationConfig =
  remember_location :: bool
  last_crop_x :: int
  last_crop_y :: int
  last_crop_width :: int
  last_crop_height :: int

definition default_ocr_location :: OCRLocationConfig where
  "default_ocr_location =
     \<lparr>remember_location = True, last_crop_x = 0, last_crop_y = 0,
      last_crop_width = 0, last_crop_height = 0\<rparr>"

definition save_location :: "OCRLocationConfig \<Rightarrow> int \<Rightarrow> int \<Rightarrow> int \<Rightarrow> int \<Rightarrow> OCRLocationConfig" where
  "save_location self x y width height =
     self\<lparr>last_crop_x := x, last_crop_y := y,
          last_crop_width := width, last_crop_height := height\<rparr>"

definition has_saved_location :: "OCRLocationConfig \<Rightarrow> bool" where
  "has_saved_location self =
     (remember_location self \<and> last_crop_width self > 0 \<and> last_crop_height self > 0)"

text \<open>\<open>_save_crop_location\<close>: the four accessors of the selected rectangle are saved.\<close>

definition save_crop_location :: "OCRLocationConfig \<Rightarrow> QRect \<Rightarrow> OCRLocationConfig" where
  "save_crop_location loc rect =
     save_location loc (sint (rect_x rect)) (sint (rect_y rect))
                       (sint (rect_width rect)) (sint (rect_height rect))"

text \<open>
  \<open>_restore_last_crop_location\<close>, from the view's current \<open>crop_rect\<close> to the new one.  An
  exception while the rectangle is built is caught and leaves \<open>crop_rect\<close> as it was.
\<close>

definition restore_last_crop_location :: "OCRLocationConfig \<Rightarrow> QRect option \<Rightarrow> QRect option" where
  "restore_last_crop_location loc crop_rect =
     (if has_saved_location loc then
        (case (to_c_int (last_crop_x loc), to_c_int (last_crop_y loc),
               to_c_int (last_crop_width loc), to_c_int (last_crop_height loc)) of
           (Inr x, Inr y, Inr w, Inr h) \<Rightarrow> Some (QRect_xywh x y w h)
         | _ \<Rightarrow> crop_rect)
      else crop_rect)"

section \<open>The page and its scripts\<close>

text \<open>
  The page as the two scripts see it: the description field (absent, or present with its
  value), the events dispatched on it and the key events dispatched on the document.
\<close>

record page =
  textarea :: "string option"
  dom_events :: "string list"
  key_events :: "string list"

datatype script = inject_script string | navigate_script

text \<open>
  What a script gives back to its callback: the value of its last statement, or nothing
  (\<open>None\<close> in the callback) when the script fails to parse or throws.
\<close>

datatype js_result = JSBool bool | JSNone

text \<open>
  The injection script holds the token twice between backticks, as it is, with no
  escaping.  The literal reproduces a token that has no backtick, no backslash, no
  carriage return and no \<open>${\<close>; any other token changes the script itself.
\<close>

definition template_safe :: "string \<Rightarrow> bool" where
  "template_safe text =
     (CHR 0x60 \<notin> set text \<and> CHR 0x5C \<notin> set text \<and> CHR 0x0D \<notin> set text \<and>
      \<not> contains text ''${'')"

text \<open>
  What the page makes of an injection script whose token is not reproduced by the literal
  is not decided here; it is a parameter, from the token and the page to the result and
  the page afterwards.
\<close>

type_synonym broken_script = "string \<Rightarrow> page \<Rightarrow> js_result \<times> page"

fun run_script :: "broken_script \<Rightarrow> script \<Rightarrow> page \<Rightarrow> js_result \<times> page" where
  "run_script js (inject_script text) pg =
     (if \<not> template_safe text then js text pg
      else
        (case textarea pg of
           None \<Rightarrow> (JSBool False, pg)
         | Some old \<Rightarrow>
             (JSBool True,
              pg\<lparr>textarea := Some text,
                 dom_events := dom_events pg @ [''input'', ''focusout'']\<rparr>)))"
| "run_script js navigate_script pg =
     (JSBool True, pg\<lparr>key_events := key_events pg @ [''ArrowRight'']\<rparr>)"

section \<open>The main window and the automation loop\<close>

text \<open>
  The slots a single-shot timer can call, and the callback a dispatched script can carry.
\<close>

datatype slot = loop_write_text_slot | loop_proceed_to_next_slot | automation_step_slot

datatype js_callback = after_write_injection_cb | after_injection_cb

text \<open>
  The state of the window that the loop reads and writes: its own fields, the two delay
  spin boxes and the full-page check box, the crop rectangle and the page of the web view,
  the shared OCR configuration, and what has been handed to the event loop and not yet
  run: pending single-shot timers (delay, slot), started OCR workers (each with its
  pixmap), and dispatched scripts in order.  Button states and status messages are left
  out.
\<close>

record main_window =
  loop_active :: bool
  loop_state :: string
  current_ocr_text :: string
  ocr_result_label :: string
  full_page_checkbox :: bool
  crop_rect :: "QRect option"
  image_load_delay :: nat
  description_save_delay :: nat
  ocr :: OCRConfig
  web_page :: page
  timers :: "(nat \<times> slot) list"
  workers :: "image list"
  js_queue :: "(script \<times> js_callback option) list"
  warnings :: "string list"

text \<open>What the screen gives when it is captured: the whole view, and a copy of a part.\<close>

record capture_env =
  grab :: image
  copy_rect :: "QRect \<Rightarrow> image \<Rightarrow> image"

definition single_shot :: "nat \<Rightarrow> slot \<Rightarrow> main_window \<Rightarrow> main_window" where
  "single_shot ms sl w = w\<lparr>timers := timers w @ [(ms, sl)]\<rparr>"

definition run_javascript :: "script \<Rightarrow> js_callback option \<Rightarrow> main_window \<Rightarrow> main_window" where
  "run_javascript sc cb w = w\<lparr>js_queue := js_queue w @ [(sc, cb)]\<rparr>"

definition inject_text_with_automation ::
    "string \<Rightarrow> js_callback option \<Rightarrow> main_window \<Rightarrow> main_window" where
  "inject_text_with_automation text finished_cb w = run_javascript (inject_script text) finished_cb w"

definition capture_crop_area :: "capture_env \<Rightarrow> main_window \<Rightarrow> image option" where
  "capture_crop_area cap w =
     (case crop_rect w of
        None \<Rightarrow> None
      | Some r \<Rightarrow> if \<not> isValid r \<or> isNull r then None else Some (copy_rect cap r (grab cap)))"

definition run_ocr :: "capture_env \<Rightarrow> main_window \<Rightarrow> main_window" where
  "run_ocr cap w =
     (if \<not> full_page_checkbox w \<and> \<not> rect_truthy (crop_rect w)
      then w\<lparr>warnings := warnings w @ [''No Crop Area'']\<rparr>
      else
        (case (if full_page_checkbox w then Some (grab cap) else capture_crop_area cap w) of
           None \<Rightarrow> w\<lparr>warnings := warnings w @ [''Capture Failed'']\<rparr>
         | Some crop_pixmap \<Rightarrow>
             w\<lparr>ocr := worker_init (ocr w) (full_page_checkbox w),
               workers := workers w @ [crop_pixmap]\<rparr>))"

definition navigate_next :: "main_window \<Rightarrow> main_window" where
  "navigate_next w = run_javascript navigate_script None w"

definition automation_step :: "capture_env \<Rightarrow> main_window \<Rightarrow> main_window" where
  "automation_step cap w = (if \<not> loop_active w then w else run_ocr cap w)"

definition loop_proceed_to_next :: "main_window \<Rightarrow> main_window" where
  "loop_proceed_to_next w =
     (if \<not> loop_active w then w
      else
        let w1 = w\<lparr>current_ocr_text := [], ocr_result_label := ''No OCR result''\<rparr>;
            w2 = navigate_next w1
        in if loop_active w2 then single_shot (image_load_delay w2) automation_step_slot w2
           else w2)"

definition after_write_injection :: "js_result \<Rightarrow> main_window \<Rightarrow> main_window" where
  "after_write_injection result w = (if loop_active w then loop_proceed_to_next w else w)"

definition loop_write_text :: "main_window \<Rightarrow> main_window" where
  "loop_write_text w =
     (if \<not> loop_active w then w
      else if current_ocr_text w \<noteq> []
      then inject_text_with_automation (current_ocr_text w) (Some after_write_injection_cb) w
      else after_write_injection (JSBool True) w)"

definition on_ocr_completed :: "string \<Rightarrow> main_window \<Rightarrow> main_window" where
  "on_ocr_completed text w =
     (let w1 = w\<lparr>current_ocr_text := text,
                 ocr_result_label := (if text \<noteq> [] then text else ''No text detected'')\<rparr>
      in if loop_active w1 \<and> text \<noteq> []
         then single_shot (description_save_delay w1) loop_write_text_slot w1
         else if loop_active w1 \<and> text = []
         then single_shot 500 loop_proceed_to_next_slot w1
         else w1)"

definition on_ocr_failed :: "reason \<Rightarrow> main_window \<Rightarrow> main_window" where
  "on_ocr_failed error_message w =
     (let w1 = w\<lparr>ocr_result_label := ''USERNAME_OCR_FAIL'',
                 current_ocr_text := ''USERNAME_OCR_FAIL''\<rparr>
      in if loop_active w1
         then single_shot (description_save_delay w1) loop_write_text_slot w1
         else w1)"


definition start_loop :: "capture_env \<Rightarrow> main_window \<Rightarrow> main_window" where
  "start_loop cap w =
     (if loop_active w then w
      else if \<not> full_page_checkbox w \<and> \<not> rect_truthy (crop_rect w)
      then w\<lparr>warnings := warnings w @ [''No Crop Area'']\<rparr>
      else automation_step cap (w\<lparr>loop_active := True, loop_state := ''OCR''\<rparr>))"


subsection \<open>What the event loop delivers\<close>

text \<open>
  A pending timer fires and calls its slot; the oldest started worker finishes and its
  signal reaches the connected handler; the oldest dispatched script has run on the page
  and its result reaches the callback, if it carries one.  The worker reads
  \<open>loop_active\<close> in its own thread, before its signal is delivered: the event carries the
  value it has read.
\<close>

definition call_slot :: "capture_env \<Rightarrow> slot \<Rightarrow> main_window \<Rightarrow> main_window" where
  "call_slot cap sl w =
     (case sl of
        loop_write_text_slot \<Rightarrow> loop_write_text w
      | loop_proceed_to_next_slot \<Rightarrow> loop_proceed_to_next w
      | automation_step_slot \<Rightarrow> automation_step cap w)"

definition deliver_signal :: "signal \<Rightarrow> main_window \<Rightarrow> main_window" where
  "deliver_signal sg w =
     (case sg of ocr_completed text \<Rightarrow> on_ocr_completed text w
               | ocr_failed why \<Rightarrow> on_ocr_failed why w)"

definition call_js_callback :: "js_callback option \<Rightarrow> js_result \<Rightarrow> main_window \<Rightarrow> main_window" where
  "call_js_callback cb result w =
     (case cb of
        None \<Rightarrow> w
      | Some after_write_injection_cb \<Rightarrow> after_write_injection result w
      | Some after_injection_cb \<Rightarrow> w)"

datatype event = timer_fires nat | worker_finishes bool | script_finishes

definition deliver ::
    "capture_env \<Rightarrow> ocr_env \<Rightarrow> broken_script \<Rightarrow> event \<Rightarrow> main_window \<Rightarrow> main_window" where
  "deliver cap env js ev w =
     (case ev of
        timer_fires i \<Rightarrow>
          if i < length (timers w)
          then call_slot cap (snd (timers w ! i))
                 (w\<lparr>timers := take i (timers w) @ drop (Suc i) (timers w)\<rparr>)
          else w
      | worker_finishes seen_active \<Rightarrow>
          (case workers w of
             [] \<Rightarrow> w
           | pixmap # rest \<Rightarrow>
               deliver_signal (worker_run env (ocr w) seen_active pixmap)
                 (w\<lparr>workers := rest\<rparr>))
      | script_finishes \<Rightarrow>
          (case js_queue w of
             [] \<Rightarrow> w
           | (sc, cb) # rest \<Rightarrow>
               let (result, pg) = run_script js sc (web_page w)
               in call_js_callback cb result (w\<lparr>js_queue := rest, web_page := pg\<rparr>)))"

fun deliver_all ::
    "capture_env \<Rightarrow> ocr_env \<Rightarrow> broken_script \<Rightarrow> event list \<Rightarrow> main_window \<Rightarrow> main_window" where
  "deliver_all cap env js [] w = w"
| "deliver_all cap env js (ev # evs) w = deliver_all cap env js evs (deliver cap env js ev w)"

section \<open>Notions used in the statements\<close>

text \<open>
  An occurrence of the marker in \<open>s\<close>: the phrase \<open>Reply to\<close> in any case, at least one
  whitespace character, then the run \<open>g\<close> of 2 to 60 characters other than line breaks,
  then \<open>post\<close>.
\<close>

definition reply_occurrence :: "string \<Rightarrow> string \<Rightarrow> string \<Rightarrow> bool" where
  "reply_occurrence s g post =
     ((\<exists>pre mk ws. s = pre @ mk @ ws @ g @ post \<and> map lower_ascii mk = ''reply to'' \<and>
         ws \<noteq> [] \<and> list_all isspace ws) \<and>
      2 \<le> length g \<and> length g \<le> 60 \<and> list_all not_newline g)"

text \<open>An integer that a C \<open>int\<close> can hold.\<close>

definition fits_c_int :: "int \<Rightarrow> bool" where
  "fits_c_int i = (- (2 ^ 31) \<le> i \<and> i < 2 ^ 31)"




text \<open>Concrete states and environments for running the model.\<close>

definition idle_window :: main_window where
  "idle_window =
     \<lparr>loop_active = False, loop_state = ''OCR'', current_ocr_text = [],
      ocr_result_label = ''No OCR result'', full_page_checkbox = False,
      crop_rect = Some (QRect_xywh 10 10 100 20),
      image_load_delay = 2000, description_save_delay = 1500,
      ocr = default_ocr_config,
      web_page = \<lparr>textarea = Some [], dom_events = [], key_events = []\<rparr>,
      timers = [], workers = [], js_queue = [], warnings = []\<rparr>"

text \<open>The same window on a page that has no description field.\<close>

definition fieldless_window :: main_window where
  "fieldless_window =
     idle_window\<lparr>web_page := \<lparr>textarea = None, dom_events = [], key_events = []\<rparr>\<rparr>"

definition sample_capture :: capture_env where
  "sample_capture = \<lparr>grab = sample_image, copy_rect = (\<lambda>r i. i)\<rparr>"

text \<open>The engine is not installed: the call raises \<open>TesseractNotFoundError\<close>.\<close>

definition engine_missing :: ocr_env where
  "engine_missing =
     \<lparr>lib = pointwise_pil,
      image_to_string = (\<lambda>i c. Inl (PyException
         (''tesseract is not installed or it'' @ [CHR 0x27] @
          ''s not in your PATH. See README file for more information.''))),
      qpixmap_to_pil = Inr\<rparr>"

text \<open>The engine reads the given text from every image, in every mode.\<close>

definition engine_reads :: "string \<Rightarrow> ocr_env" where
  "engine_reads out =
     \<lparr>lib = pointwise_pil, image_to_string = (\<lambda>i c. Inr out), qpixmap_to_pil = Inr\<rparr>"

text \<open>
  Two engines that tell the modes apart: the first reads one text in the sparse mode and
  another in the block mode, the second knows the block mode only.
\<close>

definition mode_probe :: ocr_engine where
  "mode_probe i c =
     (if c = ''--psm 11'' then Inr ''sparse mode text''
      else if c = ''--psm 6'' then Inr ''block mode text''
      else Inl (PyException ''unknown mode''))"

definition block_only :: ocr_engine where
  "block_only i c =
     (if c = ''--psm 6'' then Inr ''block mode text'' else Inl (PyException ''unknown mode''))"

text \<open>
  A script that does not parse: nothing runs, the page is as before and the callback
  receives no value.
\<close>

definition script_fails_to_parse :: broken_script where
  "script_fails_to_parse text pg = (JSNone, pg)"

section \<open>Lemmas\<close>

subsection \<open>The two searches\<close>


lemma first_some_not_None: "x \<in> set xs \<Longrightarrow> f x \<noteq> None \<Longrightarrow> first_some f xs \<noteq> None"
  by (induction xs) (auto split: option.splits)


lemma search_here: "m t \<noteq> None \<Longrightarrow> search m t \<noteq> None"
  by (cases t) (auto split: option.splits)

lemma search_not_None: "m t \<noteq> None \<Longrightarrow> search m (pre @ t) \<noteq> None"
  by (induction pre) (auto simp add: search_here split: option.splits)


lemma match_literal_complete:
  "map lower_ascii mk = map lower_ascii p \<Longrightarrow> match_literal p (mk @ rest) = Some rest"
proof (induction p arbitrary: mk)
  case Nil
  then show ?case by simp
next
  case (Cons a p)
  then obtain c cs where "mk = c # cs" by (cases mk) auto
  with Cons show ?case by simp
qed

lemma lower_reply_to: "map lower_ascii ''Reply to'' = ''reply to''"
  by code_simp




lemma lazy_run_complete:
  assumes "2 \<le> length g" "length g \<le> 60" "list_all not_newline g"
  shows "lazy_run (g @ ''...'' @ post) \<noteq> None"
proof -
  have "length g \<in> set [2..<61]"
    using assms(1,2) by (simp only: set_upt atLeastLessThan_iff) simp
  moreover have "lazy_run_at (g @ ''...'' @ post) (length g) \<noteq> None"
    using assms(3) by (simp add: lazy_run_at_def)
  ultimately show ?thesis
    unfolding lazy_run_def by (rule first_some_not_None)
qed



lemma match_reply_at_complete:
  assumes "map lower_ascii mk = ''reply to''" "ws \<noteq> []" "list_all isspace ws" "grp t \<noteq> None"
  shows "match_reply_at grp (mk @ ws @ t) \<noteq> None"
proof -
  have lit: "match_literal ''Reply to'' (mk @ ws @ t) = Some (ws @ t)"
    using assms(1) lower_reply_to by (simp add: match_literal_complete)
  have tw: "takeWhile isspace (ws @ t) = ws @ takeWhile isspace t"
    using assms(3) by (simp add: list_all_iff takeWhile_append2)
  have "1 \<le> length ws"
    using assms(2) by (cases ws) simp_all
  moreover have "length ws \<le> length (takeWhile isspace (ws @ t))"
    by (simp only: tw length_append le_add1)
  ultimately have "length ws \<in> set (rev [1..<Suc (length (takeWhile isspace (ws @ t)))])"
    by (simp only: set_rev set_upt atLeastLessThan_iff less_Suc_eq_le simp_thms)
  moreover have "(\<lambda>j. grp (drop j (ws @ t))) (length ws) \<noteq> None"
    using assms(4) by simp
  ultimately have "first_some (\<lambda>j. grp (drop j (ws @ t)))
      (rev [1..<Suc (length (takeWhile isspace (ws @ t)))]) \<noteq> None"
    by (rule first_some_not_None)
  then show ?thesis
    by (simp add: match_reply_at_def lit)
qed


lemma reply_occurrenceE:
  assumes "reply_occurrence s g post"
  obtains pre mk ws where "s = pre @ mk @ ws @ g @ post" and "map lower_ascii mk = ''reply to''"
    and "ws \<noteq> []" and "list_all isspace ws"
    and "2 \<le> length g" and "length g \<le> 60" and "list_all not_newline g"
  using assms unfolding reply_occurrence_def by (elim conjE exE)








lemma search_reply_ellipsis_complete:
  assumes "reply_occurrence s g (''...'' @ post)"
  shows "search_reply_ellipsis s \<noteq> None"
proof -
  from assms obtain pre mk ws
    where s: "s = pre @ mk @ ws @ g @ ''...'' @ post" and mk: "map lower_ascii mk = ''reply to''"
      and ws: "ws \<noteq> []" "list_all isspace ws"
      and g: "2 \<le> length g" "length g \<le> 60" "list_all not_newline g"
    by (rule reply_occurrenceE)
  have "lazy_run (g @ ''...'' @ post) \<noteq> None"
    using g by (rule lazy_run_complete)
  then have "match_reply_at lazy_run (mk @ ws @ g @ ''...'' @ post) \<noteq> None"
    using mk ws by (intro match_reply_at_complete)
  then show ?thesis
    unfolding search_reply_ellipsis_def s by (rule search_not_None)
qed


subsection \<open>Normaliser, images and rectangles\<close>

lemma has_excluded_iff:
  "has_excluded ps raw_text \<longleftrightarrow> (\<exists>p \<in> set ps. contains (upper raw_text) (upper p))"
  by (induction ps) auto

lemma upper_append: "upper (a @ b) = upper a @ upper b"
  by (simp add: upper_def)

text \<open>
  A text that contains a piece contains, in upper case, the piece in upper case: so a raw
  text with an occurrence that equals a pattern up to case is excluded.
\<close>

lemma contains_upper:
  assumes "contains raw_text piece"
  shows "contains (upper raw_text) (upper piece)"
proof -
  from assms obtain ps ss where "raw_text = ps @ piece @ ss"
    unfolding contains_def sublist_def by blast
  then have "upper raw_text = upper ps @ upper piece @ upper ss"
    by (simp only: upper_append)
  then show ?thesis
    unfolding contains_def sublist_def by blast
qed

text \<open>The examples of the normaliser on the default configuration.\<close>

lemma normalize_examples:
  "filter_text_with_reply_pattern default_ocr_config ''Reply to alice123...'' = ''alice123''"
  "filter_text_with_reply_pattern default_ocr_config ''Reply to bob_the_builder''
     = ''bob_the_builder''"
  "filter_text_with_reply_pattern default_ocr_config ''random unrelated words here''
     = ''random unrelated words''"
  "filter_text_with_reply_pattern default_ocr_config ''Reply to a...'' = ''a''"
  by code_simp+

text \<open>The two mode numbers of the configuration have no effect on extraction.\<close>

lemma psm_fields_unused:
  "extract_text l eng (cfg\<lparr>psm_sparse := a, psm_filled := b\<rparr>) pil_img
     = extract_text l eng cfg pil_img"
proof -
  have "filter_text_with_reply_pattern (cfg\<lparr>psm_sparse := a, psm_filled := b\<rparr>) t
          = filter_text_with_reply_pattern cfg t" for t
    by (simp add: filter_text_with_reply_pattern_def)
  then show ?thesis
    by (simp add: extract_text_def split: sum.splits)
qed

lemma keeps_sizeD:
  "keeps_size f \<Longrightarrow> img_width (f i) = img_width i \<and> img_height (f i) = img_height i"
  by (simp add: keeps_size_def)

lemma pointwise_pil_keeps_size: "pil_keeps_size pointwise_pil"
  by (simp add: pil_keeps_size_def keeps_size_def pointwise_pil_def)

lemma to_c_int_fits: "fits_c_int i \<Longrightarrow> to_c_int i = Inr (word_of_int i)"
  by (simp add: to_c_int_def fits_c_int_def)

lemma sint_word_of_int_fits: "fits_c_int i \<Longrightarrow> sint (word_of_int i :: c_int) = i"
  by (simp add: fits_c_int_def signed_of_int signed_take_bit_int_eq_self)

lemma sint_fits_c_int: "fits_c_int (sint (v :: c_int))"
  using sint_ge [of v] sint_lt [of v] by (simp add: fits_c_int_def)

lemma QRect_xywh_accessors:
  "rect_x (QRect_xywh x y w h) = x" "rect_y (QRect_xywh x y w h) = y"
  "rect_width (QRect_xywh x y w h) = w" "rect_height (QRect_xywh x y w h) = h"
  by (simp_all add: QRect_xywh_def rect_x_def rect_y_def rect_width_def rect_height_def)

text \<open>Every location saved from a selected rectangle can be restored as a rectangle.\<close>

lemma save_crop_location_fits:
  "fits_c_int (last_crop_x (save_crop_location loc r)) \<and>
   fits_c_int (last_crop_y (save_crop_location loc r)) \<and>
   fits_c_int (last_crop_width (save_crop_location loc r)) \<and>
   fits_c_int (last_crop_height (save_crop_location loc r))"
  by (simp add: save_crop_location_def save_location_def sint_fits_c_int)

subsection \<open>Handlers while the loop is inactive\<close>












subsection \<open>The worker in loop mode\<close>

text \<open>In loop mode the worker always signals completion, with a non-empty text.\<close>

lemma worker_run_loop_nonempty:
  "\<exists>t. worker_run env cfg True pixmap = ocr_completed t \<and> t \<noteq> []"
  by (auto simp add: worker_run_def Let_def strip_def lstrip_def rstrip_def
      split: sum.splits py_exception.splits prod.splits)

lemma loop_write_text_dispatches:
  assumes "loop_active w" and "current_ocr_text w \<noteq> []"
  shows "loop_write_text w =
           w\<lparr>js_queue := js_queue w @
                [(inject_script (current_ocr_text w), Some after_write_injection_cb)]\<rparr>"
  using assms
  by (simp add: loop_write_text_def inject_text_with_automation_def run_javascript_def)

text \<open>
  The write step on a page without the field, for a token that the literal reproduces:
  the timer fires, the script is dispatched, yields \<open>false\<close> and changes nothing, and its
  callback navigates and schedules the next cycle.
\<close>

lemma missing_field_fails_soft_for_safe_token:
  assumes "loop_active w" and "i < length (timers w)"
    and "snd (timers w ! i) = loop_write_text_slot"
    and "current_ocr_text w \<noteq> []" and "template_safe (current_ocr_text w)"
    and "textarea (web_page w) = None" and "js_queue w = []"
  shows "run_script js (inject_script (current_ocr_text w)) (web_page w)
           = (JSBool False, web_page w)"
    and "js_queue (deliver cap env js (timer_fires i) w)
           = [(inject_script (current_ocr_text w), Some after_write_injection_cb)]"
    and "deliver_all cap env js [timer_fires i, script_finishes] w =
           w\<lparr>current_ocr_text := [], ocr_result_label := ''No OCR result'',
             js_queue := [(navigate_script, None)],
             timers := take i (timers w) @ drop (Suc i) (timers w) @
                       [(image_load_delay w, automation_step_slot)]\<rparr>"
  using assms
  by (simp_all add: deliver_def call_slot_def loop_write_text_def
      inject_text_with_automation_def run_javascript_def call_js_callback_def
      after_write_injection_def loop_proceed_to_next_def navigate_next_def single_shot_def
      Let_def)

lemma safe_token_run:
  "deliver_all sample_capture (engine_reads ''Reply to zoe99...'') script_fails_to_parse
       [worker_finishes True, timer_fires 0, script_finishes]
       (start_loop sample_capture fieldless_window)
     = (start_loop sample_capture fieldless_window)
         \<lparr>workers := [], js_queue := [(navigate_script, None)],
           timers := [(2000, automation_step_slot)]\<rparr>"
  by code_simp

section \<open>The claims\<close>

text \<open>
  C1.  The claim: in every OCR cycle of the active loop the fixed token
  \<open>USERNAME_OCR_FAIL\<close> is injected when the OCR engine is unavailable.  Here the loop is
  started on a page that has the field, the engine is not installed, and the worker, the
  write timer and the injection script run in turn: \<open>extract_text\<close> has turned the
  exception into a message, the worker passes it on as text, and the field receives the
  message and not the token.  The loop itself goes on.
\<close>

theorem engine_missing_injects_message:
  "textarea (web_page (deliver_all sample_capture engine_missing script_fails_to_parse
       [worker_finishes True, timer_fires 0, script_finishes]
       (start_loop sample_capture idle_window)))
     = Some ''Tesseract OCR not installed'' \<and>
   loop_active (deliver_all sample_capture engine_missing script_fails_to_parse
       [worker_finishes True, timer_fires 0, script_finishes]
       (start_loop sample_capture idle_window))"
  by code_simp

text \<open>
  C2.  The claim has \<open>normalize\<close> return \<open>NO USER\<close> on the empty string.  The first guard
  of the function returns the empty token for it, whatever the configuration.
\<close>

theorem normalize_empty_is_empty:
  "filter_text_with_reply_pattern cfg [] = []"
  by (simp add: filter_text_with_reply_pattern_def)

theorem normalize_empty_counterexample:
  "filter_text_with_reply_pattern default_ocr_config [] \<noteq> ''NO USER''"
  by (simp add: filter_text_with_reply_pattern_def)







text \<open>
  C5.  Preprocessing keeps the width and the height of the image: it is the composition
  of four library operations, none of which is a resize, and each of them keeps the size.
\<close>

theorem preprocess_keeps_dimensions:
  assumes "pil_keeps_size l"
  shows "img_width (preprocess_image l pil_img) = img_width pil_img \<and>
         img_height (preprocess_image l pil_img) = img_height pil_img"
  using assms
  by (simp add: preprocess_image_def pil_keeps_size_def keeps_sizeD)

theorem preprocess_keeps_dimensions_witness:
  "pil_keeps_size pointwise_pil \<and>
   img_width (preprocess_image pointwise_pil sample_image) = 2 \<and>
   img_height (preprocess_image pointwise_pil sample_image) = 1"
  using preprocess_keeps_dimensions [OF pointwise_pil_keeps_size, of sample_image]
    pointwise_pil_keeps_size
  by (simp add: sample_image_def)

text \<open>
  C6.  A raw text that contains an excluded pattern, both taken in upper case, is
  normalised to the empty token.
\<close>

theorem excluded_pattern_gives_empty:
  assumes "pattern \<in> set (excluded_patterns cfg)"
    and "contains (upper raw_text) (upper pattern)"
  shows "filter_text_with_reply_pattern cfg raw_text = []"
proof -
  have "has_excluded (excluded_patterns cfg) raw_text"
    using assms has_excluded_iff by blast
  then show ?thesis
    by (simp add: filter_text_with_reply_pattern_def)
qed

theorem excluded_pattern_gives_empty_witness:
  "''LOADING'' \<in> set (excluded_patterns default_ocr_config) \<and>
   contains (upper ''Reply to bob... loading'') (upper ''LOADING'') \<and>
   filter_text_with_reply_pattern default_ocr_config ''Reply to bob... loading'' = []"
proof -
  have m: "''LOADING'' \<in> set (excluded_patterns default_ocr_config)"
    by (simp add: default_ocr_config_def)
  have c: "contains (upper ''Reply to bob... loading'') (upper ''LOADING'')"
    by code_simp
  show ?thesis
    using m c excluded_pattern_gives_empty [OF m c] by simp
qed

text \<open>
  C7.  The claim has the engine run in a sparse-text mode (PSM 11) on crops and in a block
  mode (PSM 6) on full pages.  Extraction asks the engine once, for the preprocessed image
  in the mode of the one configured string \<open>tesseract_config\<close>: two engines that agree
  there give the same extracted text, for a crop and for a full page alike.  What a
  full-page worker changes in the configuration is \<open>min_text_length\<close>, to
  \<open>max(1, min_text_length // 2)\<close>, and nothing else.
\<close>

theorem engine_mode_is_configured_string:
  "worker_init cfg full_page =
     cfg\<lparr>min_text_length :=
           (if full_page then max 1 (min_text_length cfg div 2) else min_text_length cfg)\<rparr> \<and>
   (eng (preprocess_image l pil_img) (tesseract_config cfg)
      = eng' (preprocess_image l pil_img) (tesseract_config cfg) \<longrightarrow>
    extract_text l eng (worker_init cfg full_page) pil_img
      = extract_text l eng' (worker_init cfg full_page) pil_img)"
  by (simp add: worker_init_def extract_text_def)

theorem engine_mode_is_configured_string_witness:
  "mode_probe (preprocess_image pointwise_pil sample_image) (tesseract_config default_ocr_config)
     = block_only (preprocess_image pointwise_pil sample_image)
         (tesseract_config default_ocr_config) \<and>
   mode_probe sample_image ''--psm 11'' \<noteq> block_only sample_image ''--psm 11'' \<and>
   extract_text pointwise_pil mode_probe (worker_init default_ocr_config False) sample_image
     = extract_text pointwise_pil block_only (worker_init default_ocr_config False) sample_image"
proof -
  have a: "mode_probe (preprocess_image pointwise_pil sample_image)
             (tesseract_config default_ocr_config)
           = block_only (preprocess_image pointwise_pil sample_image)
               (tesseract_config default_ocr_config)"
    by code_simp
  have b: "mode_probe sample_image ''--psm 11'' \<noteq> block_only sample_image ''--psm 11''"
    by code_simp
  from engine_mode_is_configured_string
    [of default_ocr_config False mode_probe pointwise_pil sample_image block_only] a
  have "extract_text pointwise_pil mode_probe (worker_init default_ocr_config False) sample_image
     = extract_text pointwise_pil block_only (worker_init default_ocr_config False) sample_image"
    by blast
  with a b show ?thesis
    by (intro conjI)
qed

theorem crop_capture_mode_counterexample:
  "extract_text pointwise_pil mode_probe (worker_init default_ocr_config False) sample_image
     = ''block mode text''"
  by code_simp




text \<open>
  C9.  The claim: on a page without the field the injection script yields \<open>false\<close>.
  The OCR text \<open>Reply to d`arcy...\<close> is normalised to the token \<open>d`arcy\<close>, which the
  write step dispatches inside the script's template literals as it is.  The backtick
  ends the literal, the script does not parse, and its callback receives no value
  instead of \<open>false\<close>.
\<close>

theorem backtick_token_breaks_injection:
  "js_queue (deliver_all sample_capture (engine_reads ''Reply to d`arcy...'')
       script_fails_to_parse [worker_finishes True, timer_fires 0]
       (start_loop sample_capture fieldless_window))
     = [(inject_script ''d`arcy'', Some after_write_injection_cb)] \<and>
   \<not> template_safe ''d`arcy'' \<and>
   run_script script_fails_to_parse (inject_script ''d`arcy'') (web_page fieldless_window)
     = (JSNone, web_page fieldless_window)"
  by code_simp

text \<open>
  C10.  \<open>save_location\<close> stores the four values as given; \<open>has_saved_location\<close> holds
  exactly when \<open>remember_location\<close> is set and the stored width and height are positive;
  and then, for values that a C \<open>int\<close> can hold, restoring yields a rectangle whose
  position and size are the stored values.  The claim has the last part for every stored
  value: a width of \<open>2 ^ 31\<close> is saved and reported as saved, and the rectangle cannot be
  built from it, so that the crop rectangle stays unset.
\<close>

theorem crop_location_round_trip:
  "last_crop_x (save_location loc x y w h) = x \<and>
   last_crop_y (save_location loc x y w h) = y \<and>
   last_crop_width (save_location loc x y w h) = w \<and>
   last_crop_height (save_location loc x y w h) = h \<and>
   (has_saved_location (save_location loc x y w h)
      \<longleftrightarrow> remember_location loc \<and> 0 < w \<and> 0 < h) \<and>
   (has_saved_location (save_location loc x y w h) \<and>
    fits_c_int x \<and> fits_c_int y \<and> fits_c_int w \<and> fits_c_int h \<longrightarrow>
      (\<exists>r. restore_last_crop_location (save_location loc x y w h) crop = Some r \<and>
           sint (rect_x r) = x \<and> sint (rect_y r) = y \<and>
           sint (rect_width r) = w \<and> sint (rect_height r) = h))"
  by (simp add: save_location_def has_saved_location_def restore_last_crop_location_def
      to_c_int_fits sint_word_of_int_fits QRect_xywh_accessors)

theorem crop_location_round_trip_witness:
  "has_saved_location (save_location default_ocr_location 12 34 300 40) \<and>
   fits_c_int 12 \<and> fits_c_int 34 \<and> fits_c_int 300 \<and> fits_c_int 40 \<and>
   restore_last_crop_location (save_location default_ocr_location 12 34 300 40) None
     = Some (QRect_xywh 12 34 300 40)"
proof -
  have f: "fits_c_int 12" "fits_c_int 34" "fits_c_int 300" "fits_c_int 40"
    by (simp_all add: fits_c_int_def)
  have h: "has_saved_location (save_location default_ocr_location 12 34 300 40)"
    by (simp add: has_saved_location_def save_location_def default_ocr_location_def)
  from crop_location_round_trip [of default_ocr_location 12 34 300 40 None] h f
  obtain r where
    "restore_last_crop_location (save_location default_ocr_location 12 34 300 40) None = Some r"
    by blast
  moreover have
    "restore_last_crop_location (save_location default_ocr_location 12 34 300 40) None
       = Some (QRect_xywh 12 34 300 40) \<or>
     restore_last_crop_location (save_location default_ocr_location 12 34 300 40) None = None"
    by (simp add: restore_last_crop_location_def to_c_int_def save_location_def
        split: sum.splits)
  ultimately show ?thesis
    using h f by auto
qed

theorem crop_location_round_trip_counterexample:
  "has_saved_location (save_location default_ocr_location 0 0 (2 ^ 31) 1) \<and>
   restore_last_crop_location (save_location default_ocr_location 0 0 (2 ^ 31) 1) None = None"
  by (simp add: has_saved_location_def save_location_def default_ocr_location_def
      restore_last_crop_location_def to_c_int_def)

end
